theory Spec2Isabelle
  imports Complex_Main "HOL-Library.Word"
begin

unbundle bit_operations_syntax

section \<open>JavaScript values used by \<open>App.tsx\<close>\<close>

text \<open>
  A JavaScript string is a sequence of 16-bit code units. String literals of the source
  are ASCII and are written with \<open>lit\<close>.
\<close>

type_synonym code_unit = "16 word"
type_synonym jsstring = "code_unit list"

definition lit :: "string \<Rightarrow> jsstring" where
  "lit s = map of_char s"

text \<open>
  \<open>String.prototype.trim\<close> removes WhiteSpace and LineTerminator code points from both
  ends (ECMAScript, TrimString): TAB, VT, FF, SP, NBSP, ZWNBSP, the Unicode space
  separators, and LF, CR, LS, PS.
\<close>

definition isWhiteSpace :: "code_unit \<Rightarrow> bool" where
  "isWhiteSpace c \<longleftrightarrow>
     c = 0x0009 \<or> c = 0x000B \<or> c = 0x000C \<or> c = 0x0020 \<or> c = 0x00A0 \<or> c = 0xFEFF \<or>
     c = 0x1680 \<or> (0x2000 \<le> c \<and> c \<le> 0x200A) \<or> c = 0x202F \<or> c = 0x205F \<or>
     c = 0x3000 \<or>
     c = 0x000A \<or> c = 0x000D \<or> c = 0x2028 \<or> c = 0x2029"

definition trim :: "jsstring \<Rightarrow> jsstring" where
  "trim s = rev (dropWhile isWhiteSpace (rev (dropWhile isWhiteSpace s)))"

text \<open>A string is truthy when it is not the empty string.\<close>

definition truthy :: "jsstring \<Rightarrow> bool" where
  "truthy s \<longleftrightarrow> s \<noteq> []"

text \<open>
  \<open>s += v\<close> on a string \<open>s\<close> converts \<open>v\<close> to a string first; \<open>undefined\<close> becomes
  the text \<open>undefined\<close>.
\<close>

definition ToString :: "jsstring option \<Rightarrow> jsstring" where
  "ToString v = (case v of None \<Rightarrow> lit ''undefined'' | Some t \<Rightarrow> t)"

text \<open>Exceptions are values with a \<open>name\<close> and a \<open>message\<close>.\<close>

record exn =
  exn_name :: jsstring
  exn_message :: jsstring

definition Error :: "jsstring \<Rightarrow> exn" where
  "Error msg = \<lparr>exn_name = lit ''Error'', exn_message = msg\<rparr>"

datatype 'a result = Return 'a | Throw exn

section \<open>Data model (\<open>types.ts\<close>)\<close>

type_synonym date = int

datatype role = user | assistant

record Message =
  msg_id :: jsstring
  msg_role :: role
  msg_text :: jsstring
  msg_timestamp :: date

record Suggestion =
  sug_id :: jsstring
  sug_title :: jsstring
  sug_content :: jsstring
  sug_confidence :: rat
  sug_timestamp :: date

record SessionStatus =
  isActive :: bool
  isConnecting :: bool
  isMicActive :: bool
  error :: "jsstring option"

section \<open>Server messages\<close>

text \<open>
  The fields of \<open>LiveServerMessage\<close> the handler reads. Every one of them is optional;
  \<open>None\<close> is \<open>undefined\<close>.
\<close>

record Transcription =
  tr_text :: "jsstring option"

record LiveServerContent =
  outputTranscription :: "Transcription option"
  inputTranscription :: "Transcription option"
  turnComplete :: "bool option"

record LiveServerMessage =
  serverContent :: "LiveServerContent option"

text \<open>\<open>message.serverContent?.f\<close>\<close>

definition outputTranscription_of :: "LiveServerMessage \<Rightarrow> Transcription option" where
  "outputTranscription_of m =
     (case serverContent m of None \<Rightarrow> None | Some c \<Rightarrow> outputTranscription c)"

definition inputTranscription_of :: "LiveServerMessage \<Rightarrow> Transcription option" where
  "inputTranscription_of m =
     (case serverContent m of None \<Rightarrow> None | Some c \<Rightarrow> inputTranscription c)"

definition turnComplete_of :: "LiveServerMessage \<Rightarrow> bool" where
  "turnComplete_of m =
     (case serverContent m of None \<Rightarrow> False
      | Some c \<Rightarrow> (case turnComplete c of None \<Rightarrow> False | Some b \<Rightarrow> b))"

section \<open>Media objects and the session handle\<close>

text \<open>
  Tracks, audio contexts and sessions are objects of the browser and of the service
  client. A track is known by its identity and kind; \<open>track.stop()\<close> is recorded in the
  component state below. What \<open>close()\<close> of a session does is not decided by this
  program: the handle carries the exception the call raises, if it raises one.
\<close>

datatype track_kind = audio | video

record MediaStreamTrack =
  track_id :: nat
  kind :: track_kind

type_synonym MediaStream = "MediaStreamTrack list"

definition getTracks :: "MediaStream \<Rightarrow> MediaStreamTrack list" where
  "getTracks st = st"

definition getAudioTracks :: "MediaStream \<Rightarrow> MediaStreamTrack list" where
  "getAudioTracks st = filter (\<lambda>t. kind t = audio) st"

record Session =
  session_id :: nat
  close_raises :: "exn option"

type_synonym AudioContext = nat

section \<open>Component state\<close>

text \<open>
  The \<open>useState\<close> cells and \<open>useRef\<close> cells of \<open>App\<close>, followed by the part of the
  outside world the component acts on: the tracks that were stopped, the audio contexts
  and sessions that were closed, and the lines written with \<open>console.error\<close>.
\<close>

record app =
  status :: SessionStatus
  messages :: "Message list"
  suggestions :: "Suggestion list"
  knowledgeBase :: jsstring
  streamingInput :: jsstring
  streamingOutput :: jsstring
  sessionRef :: "Session option"
  audioContextRef :: "AudioContext option"
  micStreamRef :: "MediaStream option"
  systemStreamRef :: "MediaStream option"
  currentInputTranscription :: jsstring
  currentOutputTranscription :: jsstring
  stopped_tracks :: "nat set"
  closed_contexts :: "nat set"
  closed_sessions :: "nat set"
  console :: "jsstring list"

definition initial :: app where
  "initial =
     \<lparr>status = \<lparr>isActive = False, isConnecting = False, isMicActive = False, error = None\<rparr>,
      messages = [], suggestions = [], knowledgeBase = [],
      streamingInput = [], streamingOutput = [],
      sessionRef = None, audioContextRef = None, micStreamRef = None, systemStreamRef = None,
      currentInputTranscription = [], currentOutputTranscription = [],
      stopped_tracks = {}, closed_contexts = {}, closed_sessions = {}, console = []\<rparr>"

section \<open>The message handler (\<open>onmessage\<close>)\<close>

text \<open>
  \<open>uuidv4()\<close> and \<open>new Date()\<close> are read from outside. One value per call site of the
  handler: the id and time of the user message, \<open>newMsgId\<close> and the time of the
  assistant message, and the time of the suggestion.
\<close>

record fresh =
  user_uuid :: jsstring
  user_now :: date
  newMsgId :: jsstring
  assistant_now :: date
  suggestion_now :: date

text \<open>The first statement: the \<open>if\<close> / \<open>else if\<close> over the two transcription fields.\<close>

definition onmessage_delta :: "LiveServerMessage \<Rightarrow> app \<Rightarrow> app" where
  "onmessage_delta m s =
     (case outputTranscription_of m of
        Some tr \<Rightarrow>
          (let buf = currentOutputTranscription s @ ToString (tr_text tr)
           in s\<lparr>currentOutputTranscription := buf, streamingOutput := buf\<rparr>)
      | None \<Rightarrow>
          (case inputTranscription_of m of
             Some tr \<Rightarrow>
               (let buf = currentInputTranscription s @ ToString (tr_text tr)
                in s\<lparr>currentInputTranscription := buf, streamingInput := buf\<rparr>)
           | None \<Rightarrow> s))"

text \<open>The commit of the user message: \<open>if (inputText.trim()) setMessages(...)\<close>.\<close>

definition commit_input :: "fresh \<Rightarrow> jsstring \<Rightarrow> app \<Rightarrow> app" where
  "commit_input f inputText s =
     (if truthy (trim inputText)
      then s\<lparr>messages := messages s @
                 [\<lparr>msg_id = user_uuid f, msg_role = user, msg_text = inputText,
                   msg_timestamp = user_now f\<rparr>]\<rparr>
      else s)"

text \<open>
  The commit of the assistant message and of its suggestion:
  \<open>if (outputText.trim()) { setMessages(...); setSuggestions(...) }\<close>, where
  \<open>slice(0, 15)\<close> is \<open>take 15\<close>.
\<close>

definition commit_output :: "fresh \<Rightarrow> jsstring \<Rightarrow> app \<Rightarrow> app" where
  "commit_output f outputText s =
     (if truthy (trim outputText)
      then s\<lparr>messages := messages s @
                 [\<lparr>msg_id = newMsgId f, msg_role = assistant, msg_text = outputText,
                   msg_timestamp = assistant_now f\<rparr>],
              suggestions := take 15
                 (\<lparr>sug_id = newMsgId f, sug_title = lit ''AI Insight'',
                   sug_content = outputText, sug_confidence = 0.99,
                   sug_timestamp = suggestion_now f\<rparr> # suggestions s)\<rparr>
      else s)"

text \<open>The second statement: \<open>if (message.serverContent?.turnComplete) { ... }\<close>.\<close>

definition onmessage_turnComplete :: "fresh \<Rightarrow> LiveServerMessage \<Rightarrow> app \<Rightarrow> app" where
  "onmessage_turnComplete f m s =
     (if turnComplete_of m
      then (let inputText = currentInputTranscription s;
                outputText = currentOutputTranscription s;
                s1 = commit_input f inputText s;
                s2 = commit_output f outputText s1
            in s2\<lparr>currentInputTranscription := [], currentOutputTranscription := [],
                  streamingInput := [], streamingOutput := []\<rparr>)
      else s)"

definition onmessage :: "fresh \<Rightarrow> LiveServerMessage \<Rightarrow> app \<Rightarrow> app" where
  "onmessage f m s = onmessage_turnComplete f m (onmessage_delta m s)"

section \<open>Statements that may raise\<close>

text \<open>
  A handler is a function from the state to an outcome and the state it leaves. A raised
  exception keeps every assignment made before it.
\<close>

type_synonym 'a js = "app \<Rightarrow> 'a result \<times> app"

definition skip :: "unit js" where
  "skip s = (Return (), s)"

definition throw :: "exn \<Rightarrow> unit js" where
  "throw e s = (Throw e, s)"

definition assign :: "(app \<Rightarrow> app) \<Rightarrow> unit js" where
  "assign upd s = (Return (), upd s)"

definition seq :: "unit js \<Rightarrow> unit js \<Rightarrow> unit js" where
  "seq a b s = (case a s of (Return u, s') \<Rightarrow> b s' | (Throw e, s') \<Rightarrow> (Throw e, s'))"

definition try_catch :: "unit js \<Rightarrow> (exn \<Rightarrow> unit js) \<Rightarrow> unit js" where
  "try_catch body handler s =
     (case body s of (Return u, s') \<Rightarrow> (Return u, s') | (Throw e, s') \<Rightarrow> handler e s')"

definition console_error :: "jsstring \<Rightarrow> unit js" where
  "console_error label = assign (\<lambda>s. s\<lparr>console := console s @ [label]\<rparr>)"

section \<open>Teardown (\<open>stopSession\<close>)\<close>

text \<open>\<open>session.close()\<close>: raises what the handle says, or closes the session.\<close>

definition session_close :: "Session \<Rightarrow> unit js" where
  "session_close se =
     (case close_raises se of
        Some e \<Rightarrow> throw e
      | None \<Rightarrow> assign (\<lambda>s. s\<lparr>closed_sessions := insert (session_id se) (closed_sessions s)\<rparr>))"

text \<open>\<open>track.stop()\<close> ends the track and does not raise.\<close>

definition track_stop :: "MediaStreamTrack \<Rightarrow> app \<Rightarrow> app" where
  "track_stop t s = s\<lparr>stopped_tracks := insert (track_id t) (stopped_tracks s)\<rparr>"

text \<open>\<open>tracks.forEach(track => track.stop())\<close>\<close>

definition stop_each :: "MediaStreamTrack list \<Rightarrow> app \<Rightarrow> app" where
  "stop_each ts s = fold track_stop ts s"

text \<open>
  \<open>audioContext.close()\<close> returns a promise, which \<open>stopSession\<close> does not await:
  nothing is raised at the call.
\<close>

definition context_close :: "AudioContext \<Rightarrow> app \<Rightarrow> app" where
  "context_close c s = s\<lparr>closed_contexts := insert c (closed_contexts s)\<rparr>"

definition stop_close_session :: "unit js" where
  "stop_close_session s =
     (case sessionRef s of
        Some se \<Rightarrow>
          seq (try_catch (session_close se)
                 (\<lambda>e. console_error (lit ''Error closing session:'')))
              (assign (\<lambda>s. s\<lparr>sessionRef := None\<rparr>)) s
      | None \<Rightarrow> skip s)"

definition stop_mic_stream :: "unit js" where
  "stop_mic_stream s =
     (case micStreamRef s of
        Some st \<Rightarrow> assign (\<lambda>s. (stop_each (getTracks st) s)\<lparr>micStreamRef := None\<rparr>) s
      | None \<Rightarrow> skip s)"

definition stop_system_stream :: "unit js" where
  "stop_system_stream s =
     (case systemStreamRef s of
        Some st \<Rightarrow> assign (\<lambda>s. (stop_each (getTracks st) s)\<lparr>systemStreamRef := None\<rparr>) s
      | None \<Rightarrow> skip s)"

definition stop_audio_context :: "unit js" where
  "stop_audio_context s =
     (case audioContextRef s of
        Some c \<Rightarrow> assign (\<lambda>s. (context_close c s)\<lparr>audioContextRef := None\<rparr>) s
      | None \<Rightarrow> skip s)"

definition stop_reset :: "unit js" where
  "stop_reset =
     assign (\<lambda>s. s\<lparr>status := (status s)\<lparr>isActive := False, isMicActive := False\<rparr>,
                    streamingInput := [], streamingOutput := []\<rparr>)"

definition stopSession :: "unit js" where
  "stopSession =
     seq stop_close_session
    (seq stop_mic_stream
    (seq stop_system_stream
    (seq stop_audio_context
         stop_reset)))"

section \<open>Transport callbacks\<close>

text \<open>
  \<open>onopen\<close> also installs the audio tap, which sends one frame of \<open>createBlob\<close> per
  block and touches none of the values below.
\<close>

definition onopen :: "unit js" where
  "onopen =
     assign (\<lambda>s. s\<lparr>status := (status s)\<lparr>isActive := True, isConnecting := False,
                                          isMicActive := True\<rparr>\<rparr>)"

definition onerror :: "unit js" where
  "onerror =
     seq (console_error (lit ''Session Error:''))
    (seq (assign (\<lambda>s. s\<lparr>status := (status s)
            \<lparr>error := Some (lit ''Connection error. Please restart Guard.''),
             isConnecting := False\<rparr>\<rparr>))
         stopSession)"

definition onclose :: "unit js" where
  "onclose = stopSession"

section \<open>Startup (\<open>startSession\<close>)\<close>

text \<open>
  What the browser and the service answer during one call of \<open>startSession\<close>: whether
  \<open>navigator.mediaDevices.getDisplayMedia\<close> exists, the key dialog of \<open>window.aistudio\<close>
  (when present), \<open>process.env.API_KEY\<close>, and the outcome of each request, \<open>Inl\<close> being
  the rejection. \<open>graph_raises\<close> is the exception raised while the audio graph is wired
  and the client is created, if any. The requests are awaited one after the other; the
  call is taken as one step of the component.
\<close>

record start_env =
  hasDisplayMedia :: bool
  aistudio :: "(exn + bool) option"
  openSelectKey :: "exn option"
  API_KEY :: "jsstring option"
  getUserMedia :: "exn + MediaStream"
  getDisplayMedia :: "exn + MediaStream"
  newAudioContext :: "exn + AudioContext"
  graph_raises :: "exn option"
  connect :: "exn + Session"

definition raise_if :: "exn option \<Rightarrow> unit js" where
  "raise_if r = (case r of Some e \<Rightarrow> throw e | None \<Rightarrow> skip)"

definition select_key :: "start_env \<Rightarrow> unit js" where
  "select_key env =
     (case aistudio env of
        None \<Rightarrow> skip
      | Some (Inl e) \<Rightarrow> throw e
      | Some (Inr selected) \<Rightarrow> (if \<not> selected then raise_if (openSelectKey env) else skip))"

definition acquire_microphone :: "start_env \<Rightarrow> unit js" where
  "acquire_microphone env =
     (case getUserMedia env of
        Inl err \<Rightarrow> throw (Error (lit ''Microphone denied: '' @ exn_message err))
      | Inr micStream \<Rightarrow> assign (\<lambda>s. s\<lparr>micStreamRef := Some micStream\<rparr>))"

definition audio_not_shared :: jsstring where
  "audio_not_shared =
     lit ''AUDIO NOT SHARED: You must check the '' @ [0x27] @ lit ''Share audio'' @ [0x27] @
     lit '' box in the browser popup (usually bottom-left).''"

definition permission_denied :: jsstring where
  "permission_denied =
     lit ''PERMISSION DENIED: You cancelled the share or denied permission. Please try again and ensure ''
     @ [0x27] @ lit ''Share Audio'' @ [0x27] @ lit '' is checked.''"

text \<open>The body of the inner \<open>try\<close>.\<close>

definition request_system_audio :: "start_env \<Rightarrow> unit js" where
  "request_system_audio env =
     (case getDisplayMedia env of
        Inl e \<Rightarrow> throw e
      | Inr systemStream \<Rightarrow>
          (if length (getAudioTracks systemStream) = 0
           then seq (assign (stop_each (getTracks systemStream)))
                    (throw (Error audio_not_shared))
           else assign (\<lambda>s. s\<lparr>systemStreamRef := Some systemStream\<rparr>)))"

definition acquire_system_audio :: "start_env \<Rightarrow> unit js" where
  "acquire_system_audio env =
     try_catch (request_system_audio env)
       (\<lambda>e. if exn_name e = lit ''NotAllowedError''
             then throw (Error permission_denied)
             else throw e)"

definition create_audio_context :: "start_env \<Rightarrow> unit js" where
  "create_audio_context env =
     (case newAudioContext env of
        Inl e \<Rightarrow> throw e
      | Inr audioCtx \<Rightarrow> assign (\<lambda>s. s\<lparr>audioContextRef := Some audioCtx\<rparr>))"

definition connect_session :: "start_env \<Rightarrow> unit js" where
  "connect_session env =
     (case connect env of
        Inl e \<Rightarrow> throw e
      | Inr session \<Rightarrow> assign (\<lambda>s. s\<lparr>sessionRef := Some session\<rparr>))"

text \<open>The body of the outer \<open>try\<close>, and its \<open>catch\<close>.\<close>

definition start_body :: "start_env \<Rightarrow> unit js" where
  "start_body env =
     seq (acquire_microphone env)
    (seq (acquire_system_audio env)
    (seq (create_audio_context env)
    (seq (raise_if (graph_raises env))
         (connect_session env))))"

definition start_failed :: "exn \<Rightarrow> unit js" where
  "start_failed err =
     seq (console_error (lit ''Startup Error:''))
    (seq (assign (\<lambda>s. s\<lparr>status := (status s)\<lparr>error := Some (exn_message err),
                                                 isConnecting := False\<rparr>\<rparr>))
         stopSession)"

definition startSession :: "start_env \<Rightarrow> unit js" where
  "startSession env =
     seq (assign (\<lambda>s. s\<lparr>status := \<lparr>isActive = False, isConnecting = True,
                                     isMicActive = False, error = None\<rparr>\<rparr>))
       (if \<not> hasDisplayMedia env
        then assign (\<lambda>s. s\<lparr>status := (status s)
               \<lparr>error := Some (lit ''Media capture is not supported in this browser or environment (ensure HTTPS/Localhost).''),
                isConnecting := False\<rparr>\<rparr>)
        else seq (select_key env)
          (if \<not> (case API_KEY env of None \<Rightarrow> False | Some k \<Rightarrow> truthy k)
           then assign (\<lambda>s. s\<lparr>status := (status s)
                  \<lparr>error := Some (lit ''API Key missing.''), isConnecting := False\<rparr>\<rparr>)
           else try_catch (start_body env) start_failed))"

section \<open>Runs of the component\<close>

text \<open>
  The events the component reacts to. A handler runs to its end before the next event
  is taken; when it raises, the state is the one it had reached.
\<close>

datatype event =
    Start start_env
  | Stop
  | Open
  | ServerMessage fresh LiveServerMessage
  | TransportError
  | Closed
  | SetKnowledgeBase jsstring

fun handle :: "event \<Rightarrow> app \<Rightarrow> app" where
  "handle (Start env) s = snd (startSession env s)"
| "handle Stop s = snd (stopSession s)"
| "handle Open s = snd (onopen s)"
| "handle (ServerMessage f m) s = onmessage f m s"
| "handle TransportError s = snd (onerror s)"
| "handle Closed s = snd (onclose s)"
| "handle (SetKnowledgeBase t) s = s\<lparr>knowledgeBase := t\<rparr>"

fun run :: "event list \<Rightarrow> app \<Rightarrow> app" where
  "run [] s = s"
| "run (e # es) s = run es (handle e s)"

text \<open>Messages that carry one field only, as the service sends them.\<close>

definition input_delta :: "jsstring \<Rightarrow> LiveServerMessage" where
  "input_delta t =
     \<lparr>serverContent = Some \<lparr>outputTranscription = None,
        inputTranscription = Some \<lparr>tr_text = Some t\<rparr>, turnComplete = None\<rparr>\<rparr>"

definition output_delta :: "jsstring \<Rightarrow> LiveServerMessage" where
  "output_delta t =
     \<lparr>serverContent = Some \<lparr>outputTranscription = Some \<lparr>tr_text = Some t\<rparr>,
        inputTranscription = None, turnComplete = None\<rparr>\<rparr>"

definition turn_complete :: LiveServerMessage where
  "turn_complete =
     \<lparr>serverContent = Some \<lparr>outputTranscription = None, inputTranscription = None,
        turnComplete = Some True\<rparr>\<rparr>"

section \<open>The frame encoder (\<open>createBlob\<close>, \<open>encode\<close>)\<close>

text \<open>
  An element of a \<open>Float32Array\<close> read as a Number: a finite value, which is a rational,
  or NaN or an infinity. The product of a finite 32-bit float and \<open>32768\<close> is exact in
  double precision (a power of two, far from the ends of the exponent range), so
  \<open>data[i] * 32768\<close> is the product of the rationals.
\<close>

datatype number = Finite rat | NaN | PosInfinity | NegInfinity

definition multiply :: "number \<Rightarrow> rat \<Rightarrow> number" where
  "multiply v k = (case v of Finite x \<Rightarrow> Finite (x * k) | NaN \<Rightarrow> NaN
                | PosInfinity \<Rightarrow> PosInfinity | NegInfinity \<Rightarrow> NegInfinity)"

text \<open>Rounding towards zero.\<close>

definition truncate_towards_zero :: "rat \<Rightarrow> int" where
  "truncate_towards_zero x = (if 0 \<le> x then \<lfloor>x\<rfloor> else \<lceil>x\<rceil>)"

text \<open>
  Storing a Number into an \<open>Int16Array\<close> converts it with ToInt16 (ECMAScript): NaN,
  zero and the infinities give 0; otherwise truncate, reduce modulo \<open>2<^sup>1<^sup>6\<close>, and
  read the result as a signed value.
\<close>

definition ToInt16 :: "number \<Rightarrow> int" where
  "ToInt16 v =
     (case v of
        Finite x \<Rightarrow>
          (let int16bit = truncate_towards_zero x mod 2 ^ 16
           in if int16bit \<ge> 2 ^ 15 then int16bit - 2 ^ 16 else int16bit)
      | NaN \<Rightarrow> 0 | PosInfinity \<Rightarrow> 0 | NegInfinity \<Rightarrow> 0)"

text \<open>\<open>for (let i = 0; i < l; i++) int16[i] = data[i] * 32768\<close>, on the array \<open>int16\<close>.\<close>

function fill_int16 :: "number list \<Rightarrow> nat \<Rightarrow> 16 word list \<Rightarrow> 16 word list" where
  "fill_int16 data i int16 =
     (if i < length data
      then fill_int16 data (Suc i) (int16[i := word_of_int (ToInt16 (multiply (data ! i) 32768))])
      else int16)"
  by pat_completeness auto
termination
  by (relation "measure (\<lambda>(data, i, int16). length data - i)") auto

declare fill_int16.simps [simp del]

text \<open>
  \<open>new Uint8Array(int16.buffer)\<close>: the bytes of the buffer. A typed array keeps its
  elements in the byte order of the platform, low byte first on the platforms a browser
  runs on.
\<close>

definition Uint8Array_of_buffer :: "16 word list \<Rightarrow> 8 word list" where
  "Uint8Array_of_buffer int16 = concat (map (\<lambda>w. [ucast w, ucast (drop_bit 8 w)]) int16)"

text \<open>Base64 with the standard alphabet and padding (RFC 4648, section 4).\<close>

definition base64_alphabet :: string where
  "base64_alphabet = ''ABCDEFGHIJKLMNOPQRSTUVWXYZabcdefghijklmnopqrstuvwxyz0123456789+/''"

definition base64_char :: "8 word \<Rightarrow> char" where
  "base64_char n = base64_alphabet ! unat n"

fun base64 :: "8 word list \<Rightarrow> string" where
  "base64 [] = []"
| "base64 [a] =
     [base64_char (drop_bit 2 a), base64_char (push_bit 4 (a AND 3)), CHR ''='', CHR ''='']"
| "base64 [a, b] =
     [base64_char (drop_bit 2 a), base64_char (push_bit 4 (a AND 3) OR drop_bit 4 b),
      base64_char (push_bit 2 (b AND 15)), CHR ''='']"
| "base64 (a # b # c # rest) =
     [base64_char (drop_bit 2 a), base64_char (push_bit 4 (a AND 3) OR drop_bit 4 b),
      base64_char (push_bit 2 (b AND 15) OR drop_bit 6 c), base64_char (c AND 63)]
     @ base64 rest"

text \<open>
  \<open>btoa\<close> raises \<open>InvalidCharacterError\<close> when the string has a code unit above
  \<open>0xFF\<close>, and otherwise encodes its code units as bytes.
\<close>

definition btoa :: "jsstring \<Rightarrow> jsstring result" where
  "btoa binary =
     (if filter (\<lambda>c. c > 0xFF) binary \<noteq> []
      then Throw \<lparr>exn_name = lit ''InvalidCharacterError'', exn_message = []\<rparr>
      else Return (lit (base64 (map ucast binary))))"

definition fromCharCode :: "8 word \<Rightarrow> code_unit" where
  "fromCharCode b = ucast b"

text \<open>\<open>for (let i = 0; i < len; i++) binary += String.fromCharCode(bytes[i])\<close>\<close>

function encode_loop :: "8 word list \<Rightarrow> nat \<Rightarrow> jsstring \<Rightarrow> jsstring" where
  "encode_loop bytes i binary =
     (if i < length bytes
      then encode_loop bytes (Suc i) (binary @ [fromCharCode (bytes ! i)])
      else binary)"
  by pat_completeness auto
termination
  by (relation "measure (\<lambda>(bytes, i, binary). length bytes - i)") auto

declare encode_loop.simps [simp del]

definition encode :: "8 word list \<Rightarrow> jsstring result" where
  "encode bytes = btoa (encode_loop bytes 0 [])"

record GeminiBlob =
  blob_data :: jsstring
  mimeType :: jsstring

definition createBlob :: "number list \<Rightarrow> GeminiBlob result" where
  "createBlob data =
     (let l = length data;
          int16 = fill_int16 data 0 (replicate l 0)
      in case encode (Uint8Array_of_buffer int16) of
           Throw e \<Rightarrow> Throw e
         | Return d \<Rightarrow> Return \<lparr>blob_data = d, mimeType = lit ''audio/pcm;rate=16000''\<rparr>)"

text \<open>
  The encoder as the specification words it: scale by 32768, truncate, wrap modulo
  \<open>2<^sup>1<^sup>6\<close> into the signed 16-bit range; two bytes per value, low byte first; base64.
\<close>

definition spec_quantize :: "number \<Rightarrow> int" where
  "spec_quantize v =
     (case v of
        Finite x \<Rightarrow> (truncate_towards_zero (x * 32768) + 32768) mod 65536 - 32768
      | NaN \<Rightarrow> 0 | PosInfinity \<Rightarrow> 0 | NegInfinity \<Rightarrow> 0)"

definition spec_little_endian :: "int \<Rightarrow> 8 word list" where
  "spec_little_endian n = [word_of_int (n mod 256), word_of_int (n div 256 mod 256)]"

definition spec_payload :: "number list \<Rightarrow> jsstring" where
  "spec_payload data = lit (base64 (concat (map (\<lambda>v. spec_little_endian (spec_quantize v)) data)))"

section \<open>Notions used in the statements\<close>

text \<open>The identities of the tracks of the stream a handle holds.\<close>

definition tracks_of :: "MediaStream option \<Rightarrow> nat set" where
  "tracks_of r = (case r of None \<Rightarrow> {} | Some st \<Rightarrow> track_id ` set st)"

text \<open>
  The text one message adds to the input buffer and to the output buffer: the output
  field is looked at first, the input field only when there is no output field.
\<close>

definition delta_input_text :: "LiveServerMessage \<Rightarrow> jsstring" where
  "delta_input_text m =
     (case outputTranscription_of m of
        Some tr \<Rightarrow> []
      | None \<Rightarrow> (case inputTranscription_of m of
                   Some tr \<Rightarrow> ToString (tr_text tr) | None \<Rightarrow> []))"

definition delta_output_text :: "LiveServerMessage \<Rightarrow> jsstring" where
  "delta_output_text m =
     (case outputTranscription_of m of Some tr \<Rightarrow> ToString (tr_text tr) | None \<Rightarrow> [])"

text \<open>The texts a sequence of events adds to the two buffers, in arrival order.\<close>

fun input_texts :: "event list \<Rightarrow> jsstring" where
  "input_texts [] = []"
| "input_texts (ServerMessage f m # es) = delta_input_text m @ input_texts es"
| "input_texts (e # es) = input_texts es"

fun output_texts :: "event list \<Rightarrow> jsstring" where
  "output_texts [] = []"
| "output_texts (ServerMessage f m # es) = delta_output_text m @ output_texts es"
| "output_texts (e # es) = output_texts es"

text \<open>A server message that is not a turn boundary; a server message of any kind.\<close>

fun delta_event :: "event \<Rightarrow> bool" where
  "delta_event (ServerMessage f m) = (\<not> turnComplete_of m)"
| "delta_event e = False"

fun is_server_message :: "event \<Rightarrow> bool" where
  "is_server_message (ServerMessage f m) = True"
| "is_server_message e = False"

text \<open>Deltas of one direction only, each with the values read from outside at its arrival.\<close>

definition input_deltas :: "(fresh \<times> jsstring) list \<Rightarrow> event list" where
  "input_deltas ds = map (\<lambda>(f, t). ServerMessage f (input_delta t)) ds"

definition output_deltas :: "(fresh \<times> jsstring) list \<Rightarrow> event list" where
  "output_deltas ds = map (\<lambda>(f, t). ServerMessage f (output_delta t)) ds"

text \<open>The records the commit builds, by the text they carry.\<close>

definition user_message :: "fresh \<Rightarrow> jsstring \<Rightarrow> Message" where
  "user_message f t =
     \<lparr>msg_id = user_uuid f, msg_role = user, msg_text = t, msg_timestamp = user_now f\<rparr>"

definition assistant_message :: "fresh \<Rightarrow> jsstring \<Rightarrow> Message" where
  "assistant_message f t =
     \<lparr>msg_id = newMsgId f, msg_role = assistant, msg_text = t,
      msg_timestamp = assistant_now f\<rparr>"

definition insight :: "fresh \<Rightarrow> jsstring \<Rightarrow> Suggestion" where
  "insight f t =
     \<lparr>sug_id = newMsgId f, sug_title = lit ''AI Insight'', sug_content = t,
      sug_confidence = 0.99, sug_timestamp = suggestion_now f\<rparr>"

text \<open>A handler keeps an observation of the state when running it never changes it.\<close>

definition keeps :: "(app \<Rightarrow> 'a) \<Rightarrow> unit js \<Rightarrow> bool" where
  "keeps g c \<longleftrightarrow> (\<forall>s. g (snd (c s)) = g s)"

section \<open>Example states and messages\<close>

text \<open>
  Concrete values on which the theorems below are instantiated: values read from outside,
  a message that carries an output delta and the turn boundary at once, a state with a blank input
  buffer, a state with 15 suggestions, an active session whose \<open>close()\<close> raises, and a
  browser that shares a display stream without audio.
\<close>

definition fresh0 :: fresh where
  "fresh0 = \<lparr>user_uuid = lit ''u-1'', user_now = 1000, newMsgId = lit ''a-1'',
             assistant_now = 1001, suggestion_now = 1002\<rparr>"

definition hi_and_done :: LiveServerMessage where
  "hi_and_done =
     \<lparr>serverContent = Some \<lparr>outputTranscription = Some \<lparr>tr_text = Some (lit ''hi'')\<rparr>,
        inputTranscription = None, turnComplete = Some True\<rparr>\<rparr>"

definition blank0 :: app where
  "blank0 = initial\<lparr>currentInputTranscription := lit ''  '', streamingInput := lit ''  '',
                     messages := [user_message fresh0 (lit ''earlier'')]\<rparr>"

definition suggestion0 :: "code_unit \<Rightarrow> Suggestion" where
  "suggestion0 n =
     \<lparr>sug_id = [n], sug_title = lit ''AI Insight'', sug_content = lit ''noted'',
      sug_confidence = 0.99, sug_timestamp = 0\<rparr>"

definition full0 :: app where
  "full0 =
     initial\<lparr>suggestions := map suggestion0 [1, 2, 3, 4, 5, 6, 7, 8, 9, 10, 11, 12, 13, 14, 15],
             currentOutputTranscription := lit ''The answer is 4.''\<rparr>"

definition session0 :: Session where
  "session0 = \<lparr>session_id = 7, close_raises = Some (Error (lit ''socket is closed''))\<rparr>"

definition active0 :: app where
  "active0 =
     initial\<lparr>status := \<lparr>isActive = True, isConnecting = False, isMicActive = True,
                          error = None\<rparr>,
             streamingInput := lit ''hel'', currentInputTranscription := lit ''hel'',
             sessionRef := Some session0,
             audioContextRef := Some 4,
             micStreamRef := Some [\<lparr>track_id = 1, kind = audio\<rparr>],
             systemStreamRef := Some [\<lparr>track_id = 2, kind = video\<rparr>,
                                      \<lparr>track_id = 3, kind = audio\<rparr>]\<rparr>"


section \<open>Theorems\<close>

subsection \<open>Precedence of the output delta\<close>

text \<open>
  Claim C6. A server message that carries an output-transcription delta and an
  input-transcription delta is handled as if the input delta were not there: the handler
  gives the same state as for the message without its input delta, and when the message
  is not a turn boundary the output text is appended to the output buffer and
  republished while the input buffer and its live value stay as they were.
\<close>

theorem C6_output_delta_takes_precedence:
  "onmessage f
      \<lparr>serverContent = Some \<lparr>outputTranscription = Some ot, inputTranscription = Some it,
                              turnComplete = tc\<rparr>\<rparr> s
    = onmessage f
      \<lparr>serverContent = Some \<lparr>outputTranscription = Some ot, inputTranscription = None,
                              turnComplete = tc\<rparr>\<rparr> s
   \<and> onmessage_delta
      \<lparr>serverContent = Some \<lparr>outputTranscription = Some ot, inputTranscription = Some it,
                              turnComplete = tc\<rparr>\<rparr> s
    = s\<lparr>currentOutputTranscription := currentOutputTranscription s @ ToString (tr_text ot),
         streamingOutput := currentOutputTranscription s @ ToString (tr_text ot)\<rparr>"
  by (simp add: onmessage_def onmessage_delta_def onmessage_turnComplete_def
      outputTranscription_of_def inputTranscription_of_def turnComplete_of_def Let_def)


subsection \<open>The frame encoder\<close>

lemma fill_int16_eq:
  "i \<le> length data \<Longrightarrow> length int16 = length data \<Longrightarrow>
   fill_int16 data i int16 =
     take i int16 @ map (\<lambda>v. word_of_int (ToInt16 (multiply v 32768))) (drop i data)"
proof (induction data i int16 rule: fill_int16.induct)
  case (1 data i int16)
  show ?case
  proof (cases "i < length data")
    case True
    have d: "drop i data = data ! i # drop (Suc i) data"
      using True by (simp add: Cons_nth_drop_Suc)
    from True 1 show ?thesis
      by (subst fill_int16.simps) (simp add: d take_Suc_conv_app_nth)
  next
    case False
    then show ?thesis using 1 by (subst fill_int16.simps) simp
  qed
qed

lemma encode_loop_eq:
  "i \<le> length bytes \<Longrightarrow>
   encode_loop bytes i binary = binary @ map fromCharCode (drop i bytes)"
proof (induction bytes i binary rule: encode_loop.induct)
  case (1 bytes i binary)
  show ?case
  proof (cases "i < length bytes")
    case True
    have d: "drop i bytes = bytes ! i # drop (Suc i) bytes"
      using True by (simp add: Cons_nth_drop_Suc)
    from True 1 show ?thesis
      by (subst encode_loop.simps) (simp add: d)
  next
    case False
    then show ?thesis using 1 by (subst encode_loop.simps) simp
  qed
qed

lemma byte_of_code_unit: "(ucast (fromCharCode b) :: 8 word) = b"
  unfolding fromCharCode_def
  by (rule bit_word_eqI) (auto simp add: bit_ucast_iff dest: bit_imp_le_length)

lemma code_unit_is_byte: "\<not> 0xFF < fromCharCode b"
proof -
  have b: "uint b < 256" "0 \<le> uint b" using uint_bounded[of b] by simp_all
  have "uint (ucast b :: 16 word) = take_bit 16 (uint b)"
    by (simp add: unsigned_ucast_eq)
  also have "\<dots> = uint b" using b by (simp add: take_bit_eq_mod)
  finally show ?thesis using b by (simp add: word_less_def fromCharCode_def)
qed

lemma btoa_binary: "btoa (map fromCharCode bytes) = Return (lit (base64 bytes))"
proof -
  have "filter (\<lambda>c. 0xFF < c) (map fromCharCode bytes) = []"
    by (simp add: filter_empty_conv code_unit_is_byte)
  moreover have "map ucast (map fromCharCode bytes) = bytes"
    by (simp add: byte_of_code_unit comp_def)
  ultimately show ?thesis by (simp only: btoa_def) simp
qed

lemma encode_eq: "encode bytes = Return (lit (base64 bytes))"
  by (simp add: encode_def encode_loop_eq btoa_binary)

lemma wrap_signed:
  fixes t :: int
  shows "(let b = t mod 2 ^ 16 in if b \<ge> 2 ^ 15 then b - 2 ^ 16 else b)
         = (t + 32768) mod 65536 - 32768"
proof -
  define b where "b = t mod 65536"
  have r: "0 \<le> b" "b < 65536" by (simp_all add: b_def)
  have e: "(t + 32768) mod 65536 = (b + 32768) mod 65536"
    unfolding b_def by (simp add: mod_add_left_eq)
  show ?thesis
  proof (cases "b \<ge> 32768")
    case True
    have "(b + 32768) mod 65536 = (b + 32768 - 65536) mod 65536"
      by (metis mod_diff_right_eq mod_self diff_zero)
    also have "\<dots> = b + 32768 - 65536" using True r by simp
    finally show ?thesis using True by (simp add: e b_def[symmetric] Let_def)
  next
    case False
    then have "(b + 32768) mod 65536 = b + 32768" using r by simp
    then show ?thesis using False by (simp add: e b_def[symmetric] Let_def)
  qed
qed

lemma ToInt16_scaled: "ToInt16 (multiply v 32768) = spec_quantize v"
  using wrap_signed by (cases v) (simp_all add: ToInt16_def multiply_def spec_quantize_def)

lemma low_byte: "(ucast (word_of_int n :: 16 word) :: 8 word) = word_of_int (n mod 256)"
  by (simp add: word_eq_iff_unsigned[where ?'a = int] unsigned_ucast_eq unsigned_of_int
      take_bit_eq_mod mod_mod_cancel)

lemma high_byte:
  "(ucast (drop_bit 8 (word_of_int n :: 16 word)) :: 8 word) = word_of_int (n div 256 mod 256)"
proof -
  have "uint (drop_bit 8 (word_of_int n :: 16 word)) = n mod 65536 div 256"
    by (simp only: unsigned_drop_bit_eq uint_word_of_int_eq)
       (simp add: take_bit_eq_mod drop_bit_eq_div)
  moreover have "n mod 65536 div 256 = n div 256 mod 256"
  proof -
    have "n mod (256 * 256) = 256 * (n div 256 mod 256) + n mod 256"
      by (rule zmod_zmult2_eq) simp
    then have "n mod 65536 div 256 = (256 * (n div 256 mod 256) + n mod 256) div 256"
      by simp
    also have "\<dots> = n div 256 mod 256" by simp
    finally show ?thesis .
  qed
  ultimately have "uint (drop_bit 8 (word_of_int n :: 16 word)) = n div 256 mod 256"
    by simp
  then show ?thesis
    by (simp add: word_eq_iff_unsigned[where ?'a = int] unsigned_ucast_eq unsigned_of_int
        take_bit_eq_mod)
qed

lemma buffer_bytes:
  "Uint8Array_of_buffer (map (\<lambda>v. word_of_int (ToInt16 (multiply v 32768))) data)
   = concat (map (\<lambda>v. spec_little_endian (spec_quantize v)) data)"
  by (induction data)
     (simp_all add: Uint8Array_of_buffer_def spec_little_endian_def ToInt16_scaled
        low_byte high_byte)

lemma spec_quantize_range: "- 32768 \<le> spec_quantize v \<and> spec_quantize v < 32768"
proof (cases v)
  case (Finite x)
  have "0 \<le> (truncate_towards_zero (x * 32768) + 32768) mod 65536"
       "(truncate_towards_zero (x * 32768) + 32768) mod 65536 < 65536"
    by simp_all
  then show ?thesis using Finite by (simp add: spec_quantize_def)
qed (simp_all add: spec_quantize_def)

text \<open>
  Claim C5. \<open>createBlob\<close> takes the sample block only and never raises. Its payload is
  the base64 text of the bytes obtained by scaling each sample by 32768, truncating
  towards zero and wrapping modulo \<open>2<^sup>1<^sup>6\<close> into the signed 16-bit range, two
  bytes per sample with the low byte first; the value kept in the \<open>Int16Array\<close> is that
  signed integer, and the sample 1.0 gives \<open>-32768\<close>. The result is a function of the
  block, so equal blocks give equal frames.
\<close>

theorem C5_createBlob_encodes_frame:
  "createBlob data
     = Return \<lparr>blob_data = spec_payload data, mimeType = lit ''audio/pcm;rate=16000''\<rparr>
   \<and> sint (word_of_int (ToInt16 (multiply v 32768)) :: 16 word) = spec_quantize v
   \<and> spec_quantize (Finite 1) = - 32768"
proof -
  have "fill_int16 data 0 (replicate (length data) 0)
        = map (\<lambda>v. word_of_int (ToInt16 (multiply v 32768))) data"
    by (simp add: fill_int16_eq)
  then have "createBlob data
     = Return \<lparr>blob_data = spec_payload data, mimeType = lit ''audio/pcm;rate=16000''\<rparr>"
    by (simp add: createBlob_def Let_def encode_eq buffer_bytes spec_payload_def)
  moreover have "sint (word_of_int (ToInt16 (multiply v 32768)) :: 16 word) = spec_quantize v"
    using spec_quantize_range[of v]
    by (simp add: ToInt16_scaled sint_sbintrunc' signed_take_bit_int_eq_self)
  moreover have "spec_quantize (Finite 1) = - 32768"
    by (simp add: spec_quantize_def truncate_towards_zero_def)
  ultimately show ?thesis by simp
qed

theorem C5_createBlob_witness:
  "createBlob [Finite 1, Finite (- 3 / 65536), NaN, Finite (3 / 2)]
     = Return \<lparr>blob_data = lit ''AID//wAAAMA='', mimeType = lit ''audio/pcm;rate=16000''\<rparr>"
proof -
  have c: "\<lceil>- (3 / 2 :: rat)\<rceil> = - 1"
    by (rule ceiling_unique) simp_all
  show ?thesis
    using C5_createBlob_encodes_frame
      [of "[Finite 1, Finite (- 3 / 65536), NaN, Finite (3 / 2)]" NaN]
    by (simp add: spec_payload_def spec_quantize_def spec_little_endian_def
        truncate_towards_zero_def base64_char_def base64_alphabet_def c)
qed

subsection \<open>Teardown\<close>

lemma stop_each_eq:
  "stop_each ts s = s\<lparr>stopped_tracks := stopped_tracks s \<union> track_id ` set ts\<rparr>"
proof (induction ts arbitrary: s)
  case Nil
  show ?case by (simp add: stop_each_def)
next
  case (Cons t ts)
  have "stop_each (t # ts) s = stop_each ts (track_stop t s)"
    by (simp add: stop_each_def)
  also have "\<dots> = s\<lparr>stopped_tracks := stopped_tracks s \<union> track_id ` set (t # ts)\<rparr>"
    by (simp add: Cons.IH track_stop_def)
  finally show ?case .
qed

lemma stop_close_session_eq:
  "stop_close_session s =
     (Return (),
      case sessionRef s of
        None \<Rightarrow> s
      | Some se \<Rightarrow>
          (case close_raises se of
             Some e \<Rightarrow> s\<lparr>console := console s @ [lit ''Error closing session:''],
                          sessionRef := None\<rparr>
           | None \<Rightarrow> s\<lparr>closed_sessions := insert (session_id se) (closed_sessions s),
                        sessionRef := None\<rparr>))"
  by (simp add: stop_close_session_def seq_def try_catch_def session_close_def throw_def
      assign_def skip_def console_error_def split: option.splits)

lemma stop_mic_stream_eq:
  "stop_mic_stream s =
     (Return (),
      case micStreamRef s of
        None \<Rightarrow> s
      | Some st \<Rightarrow> s\<lparr>stopped_tracks := stopped_tracks s \<union> track_id ` set st,
                      micStreamRef := None\<rparr>)"
  by (simp add: stop_mic_stream_def assign_def skip_def stop_each_eq getTracks_def
      split: option.splits)

lemma stop_system_stream_eq:
  "stop_system_stream s =
     (Return (),
      case systemStreamRef s of
        None \<Rightarrow> s
      | Some st \<Rightarrow> s\<lparr>stopped_tracks := stopped_tracks s \<union> track_id ` set st,
                      systemStreamRef := None\<rparr>)"
  by (simp add: stop_system_stream_def assign_def skip_def stop_each_eq getTracks_def
      split: option.splits)

lemma stop_audio_context_eq:
  "stop_audio_context s =
     (Return (),
      case audioContextRef s of
        None \<Rightarrow> s
      | Some c \<Rightarrow> s\<lparr>closed_contexts := insert c (closed_contexts s),
                     audioContextRef := None\<rparr>)"
  by (simp add: stop_audio_context_def assign_def skip_def context_close_def
      split: option.splits)

lemma stop_reset_eq:
  "stop_reset s =
     (Return (), s\<lparr>status := (status s)\<lparr>isActive := False, isMicActive := False\<rparr>,
                    streamingInput := [], streamingOutput := []\<rparr>)"
  by (simp add: stop_reset_def assign_def)

lemma stopSession_stages:
  "stopSession s =
     (Return (),
      snd (stop_reset (snd (stop_audio_context (snd (stop_system_stream
        (snd (stop_mic_stream (snd (stop_close_session s))))))))))"
proof -
  have r: "fst (stop_close_session t) = Return ()" "fst (stop_mic_stream t) = Return ()"
    "fst (stop_system_stream t) = Return ()" "fst (stop_audio_context t) = Return ()"
    "fst (stop_reset t) = Return ()" for t
    by (simp_all add: stop_close_session_eq stop_mic_stream_eq stop_system_stream_eq
        stop_audio_context_eq stop_reset_eq)
  have s: "seq a b t = b (snd (a t))" if "fst (a t) = Return ()" for a b t
    using that by (cases "a t") (simp add: seq_def)
  show ?thesis
    by (simp add: stopSession_def s r prod_eq_iff)
qed

lemma close_session_fields:
  "status (snd (stop_close_session s)) = status s"
  "messages (snd (stop_close_session s)) = messages s"
  "suggestions (snd (stop_close_session s)) = suggestions s"
  "knowledgeBase (snd (stop_close_session s)) = knowledgeBase s"
  "streamingInput (snd (stop_close_session s)) = streamingInput s"
  "streamingOutput (snd (stop_close_session s)) = streamingOutput s"
  "sessionRef (snd (stop_close_session s)) = None"
  "audioContextRef (snd (stop_close_session s)) = audioContextRef s"
  "micStreamRef (snd (stop_close_session s)) = micStreamRef s"
  "systemStreamRef (snd (stop_close_session s)) = systemStreamRef s"
  "currentInputTranscription (snd (stop_close_session s)) = currentInputTranscription s"
  "currentOutputTranscription (snd (stop_close_session s)) = currentOutputTranscription s"
  "stopped_tracks (snd (stop_close_session s)) = stopped_tracks s"
  "closed_contexts (snd (stop_close_session s)) = closed_contexts s"
  by (simp_all add: stop_close_session_eq split: option.splits)

lemma mic_stream_fields:
  "status (snd (stop_mic_stream s)) = status s"
  "messages (snd (stop_mic_stream s)) = messages s"
  "suggestions (snd (stop_mic_stream s)) = suggestions s"
  "knowledgeBase (snd (stop_mic_stream s)) = knowledgeBase s"
  "streamingInput (snd (stop_mic_stream s)) = streamingInput s"
  "streamingOutput (snd (stop_mic_stream s)) = streamingOutput s"
  "sessionRef (snd (stop_mic_stream s)) = sessionRef s"
  "audioContextRef (snd (stop_mic_stream s)) = audioContextRef s"
  "micStreamRef (snd (stop_mic_stream s)) = None"
  "systemStreamRef (snd (stop_mic_stream s)) = systemStreamRef s"
  "currentInputTranscription (snd (stop_mic_stream s)) = currentInputTranscription s"
  "currentOutputTranscription (snd (stop_mic_stream s)) = currentOutputTranscription s"
  "closed_contexts (snd (stop_mic_stream s)) = closed_contexts s"
  "closed_sessions (snd (stop_mic_stream s)) = closed_sessions s"
  "console (snd (stop_mic_stream s)) = console s"
  by (simp_all add: stop_mic_stream_eq split: option.splits)

lemma system_stream_fields:
  "status (snd (stop_system_stream s)) = status s"
  "messages (snd (stop_system_stream s)) = messages s"
  "suggestions (snd (stop_system_stream s)) = suggestions s"
  "knowledgeBase (snd (stop_system_stream s)) = knowledgeBase s"
  "streamingInput (snd (stop_system_stream s)) = streamingInput s"
  "streamingOutput (snd (stop_system_stream s)) = streamingOutput s"
  "sessionRef (snd (stop_system_stream s)) = sessionRef s"
  "audioContextRef (snd (stop_system_stream s)) = audioContextRef s"
  "micStreamRef (snd (stop_system_stream s)) = micStreamRef s"
  "systemStreamRef (snd (stop_system_stream s)) = None"
  "currentInputTranscription (snd (stop_system_stream s)) = currentInputTranscription s"
  "currentOutputTranscription (snd (stop_system_stream s)) = currentOutputTranscription s"
  "closed_contexts (snd (stop_system_stream s)) = closed_contexts s"
  "closed_sessions (snd (stop_system_stream s)) = closed_sessions s"
  "console (snd (stop_system_stream s)) = console s"
  by (simp_all add: stop_system_stream_eq split: option.splits)

lemma audio_context_fields:
  "status (snd (stop_audio_context s)) = status s"
  "messages (snd (stop_audio_context s)) = messages s"
  "suggestions (snd (stop_audio_context s)) = suggestions s"
  "knowledgeBase (snd (stop_audio_context s)) = knowledgeBase s"
  "streamingInput (snd (stop_audio_context s)) = streamingInput s"
  "streamingOutput (snd (stop_audio_context s)) = streamingOutput s"
  "sessionRef (snd (stop_audio_context s)) = sessionRef s"
  "audioContextRef (snd (stop_audio_context s)) = None"
  "micStreamRef (snd (stop_audio_context s)) = micStreamRef s"
  "systemStreamRef (snd (stop_audio_context s)) = systemStreamRef s"
  "currentInputTranscription (snd (stop_audio_context s)) = currentInputTranscription s"
  "currentOutputTranscription (snd (stop_audio_context s)) = currentOutputTranscription s"
  "stopped_tracks (snd (stop_audio_context s)) = stopped_tracks s"
  "closed_sessions (snd (stop_audio_context s)) = closed_sessions s"
  "console (snd (stop_audio_context s)) = console s"
  by (simp_all add: stop_audio_context_eq split: option.splits)

lemma reset_fields:
  "status (snd (stop_reset s)) = (status s)\<lparr>isActive := False, isMicActive := False\<rparr>"
  "messages (snd (stop_reset s)) = messages s"
  "suggestions (snd (stop_reset s)) = suggestions s"
  "knowledgeBase (snd (stop_reset s)) = knowledgeBase s"
  "streamingInput (snd (stop_reset s)) = []"
  "streamingOutput (snd (stop_reset s)) = []"
  "sessionRef (snd (stop_reset s)) = sessionRef s"
  "audioContextRef (snd (stop_reset s)) = audioContextRef s"
  "micStreamRef (snd (stop_reset s)) = micStreamRef s"
  "systemStreamRef (snd (stop_reset s)) = systemStreamRef s"
  "currentInputTranscription (snd (stop_reset s)) = currentInputTranscription s"
  "currentOutputTranscription (snd (stop_reset s)) = currentOutputTranscription s"
  "stopped_tracks (snd (stop_reset s)) = stopped_tracks s"
  "closed_contexts (snd (stop_reset s)) = closed_contexts s"
  "closed_sessions (snd (stop_reset s)) = closed_sessions s"
  "console (snd (stop_reset s)) = console s"
  by (simp_all add: stop_reset_eq)

lemmas stage_fields =
  close_session_fields mic_stream_fields system_stream_fields audio_context_fields reset_fields

lemma stopSession_fields:
  "fst (stopSession s) = Return ()"
  "status (snd (stopSession s)) = (status s)\<lparr>isActive := False, isMicActive := False\<rparr>"
  "messages (snd (stopSession s)) = messages s"
  "suggestions (snd (stopSession s)) = suggestions s"
  "knowledgeBase (snd (stopSession s)) = knowledgeBase s"
  "streamingInput (snd (stopSession s)) = []"
  "streamingOutput (snd (stopSession s)) = []"
  "sessionRef (snd (stopSession s)) = None"
  "audioContextRef (snd (stopSession s)) = None"
  "micStreamRef (snd (stopSession s)) = None"
  "systemStreamRef (snd (stopSession s)) = None"
  "currentInputTranscription (snd (stopSession s)) = currentInputTranscription s"
  "currentOutputTranscription (snd (stopSession s)) = currentOutputTranscription s"
  by (simp_all add: stopSession_stages stage_fields)

lemma stopSession_stopped_tracks:
  "stopped_tracks (snd (stopSession s))
     = stopped_tracks s \<union> tracks_of (micStreamRef s) \<union> tracks_of (systemStreamRef s)"
proof -
  have "stopped_tracks (snd (stop_mic_stream t)) = stopped_tracks t \<union> tracks_of (micStreamRef t)"
    "stopped_tracks (snd (stop_system_stream t))
       = stopped_tracks t \<union> tracks_of (systemStreamRef t)" for t
    by (simp_all add: stop_mic_stream_eq stop_system_stream_eq tracks_of_def
        split: option.splits)
  then show ?thesis
    by (simp add: stopSession_stages stage_fields split: option.splits)
qed

lemma stopSession_closed_contexts:
  "closed_contexts (snd (stopSession s))
     = (case audioContextRef s of None \<Rightarrow> closed_contexts s
        | Some c \<Rightarrow> insert c (closed_contexts s))"
proof -
  have "closed_contexts (snd (stop_audio_context t))
     = (case audioContextRef t of None \<Rightarrow> closed_contexts t
        | Some c \<Rightarrow> insert c (closed_contexts t))" for t
    by (simp add: stop_audio_context_eq split: option.splits)
  then show ?thesis
    by (simp add: stopSession_stages stage_fields split: option.splits)
qed

lemma stopSession_closed_sessions:
  "closed_sessions (snd (stopSession s))
     = (case sessionRef s of None \<Rightarrow> closed_sessions s
        | Some se \<Rightarrow> (case close_raises se of Some e \<Rightarrow> closed_sessions s
                      | None \<Rightarrow> insert (session_id se) (closed_sessions s)))"
proof -
  have "closed_sessions (snd (stop_close_session t))
     = (case sessionRef t of None \<Rightarrow> closed_sessions t
        | Some se \<Rightarrow> (case close_raises se of Some e \<Rightarrow> closed_sessions t
                      | None \<Rightarrow> insert (session_id se) (closed_sessions t)))" for t
    by (simp add: stop_close_session_eq split: option.splits)
  then show ?thesis
    by (simp add: stopSession_stages stage_fields split: option.splits)
qed

lemma stopSession_console:
  "console (snd (stopSession s))
     = (case sessionRef s of None \<Rightarrow> console s
        | Some se \<Rightarrow> (case close_raises se of
                        Some e \<Rightarrow> console s @ [lit ''Error closing session:'']
                      | None \<Rightarrow> console s))"
proof -
  have "console (snd (stop_close_session t))
     = (case sessionRef t of None \<Rightarrow> console t
        | Some se \<Rightarrow> (case close_raises se of
                        Some e \<Rightarrow> console t @ [lit ''Error closing session:'']
                      | None \<Rightarrow> console t))" for t
    by (simp add: stop_close_session_eq split: option.splits)
  then show ?thesis
    by (simp add: stopSession_stages stage_fields split: option.splits)
qed

lemma stopSession_torn_down:
  assumes "sessionRef s = None" "micStreamRef s = None" "systemStreamRef s = None"
    "audioContextRef s = None" "\<not> isActive (status s)" "\<not> isMicActive (status s)"
    "streamingInput s = []" "streamingOutput s = []"
  shows "stopSession s = (Return (), s)"
proof -
  have "status s = (status s)\<lparr>isActive := False, isMicActive := False\<rparr>"
    using assms by (cases "status s") simp
  then have "s\<lparr>status := (status s)\<lparr>isActive := False, isMicActive := False\<rparr>,
          streamingInput := [], streamingOutput := []\<rparr> = s"
    using assms by (cases s) simp
  then show ?thesis
    using assms
    by (simp add: stopSession_stages stop_close_session_eq stop_mic_stream_eq
        stop_system_stream_eq stop_audio_context_eq stop_reset_eq)
qed

lemma seq_assign: "seq (assign f) b s = b (f s)"
  by (simp add: seq_def assign_def)

lemma onerror_eq:
  "onerror s =
     stopSession (s\<lparr>console := console s @ [lit ''Session Error:''],
                    status := (status s)
                      \<lparr>error := Some (lit ''Connection error. Please restart Guard.''),
                       isConnecting := False\<rparr>\<rparr>)"
  by (simp add: onerror_def console_error_def seq_assign)

text \<open>
  Claim C8. From every state (no handle set, some handles set, or just torn down, and
  whether or not \<open>close()\<close> of the session raises) \<open>stopSession\<close> returns without
  raising, and a second call changes nothing. After it the four handles are cleared,
  every track of the two streams is stopped, the audio context is closed,
  \<open>isActive\<close> and \<open>isMicActive\<close> are false and both live values are empty; when
  \<open>close()\<close> raised, the exception is logged and the rest is done all the same.
\<close>

theorem C8_stopSession_safe_idempotent:
  "fst (stopSession s) = Return ()
   \<and> stopSession (snd (stopSession s)) = (Return (), snd (stopSession s))
   \<and> sessionRef (snd (stopSession s)) = None
   \<and> micStreamRef (snd (stopSession s)) = None
   \<and> systemStreamRef (snd (stopSession s)) = None
   \<and> audioContextRef (snd (stopSession s)) = None
   \<and> tracks_of (micStreamRef s) \<union> tracks_of (systemStreamRef s)
        \<subseteq> stopped_tracks (snd (stopSession s))
   \<and> closed_contexts (snd (stopSession s))
        = (case audioContextRef s of None \<Rightarrow> closed_contexts s
           | Some c \<Rightarrow> insert c (closed_contexts s))
   \<and> console (snd (stopSession s))
        = (case sessionRef s of None \<Rightarrow> console s
           | Some se \<Rightarrow> (case close_raises se of
                           Some e \<Rightarrow> console s @ [lit ''Error closing session:'']
                         | None \<Rightarrow> console s))
   \<and> status (snd (stopSession s)) = (status s)\<lparr>isActive := False, isMicActive := False\<rparr>
   \<and> streamingInput (snd (stopSession s)) = []
   \<and> streamingOutput (snd (stopSession s)) = []"
proof -
  have "stopSession (snd (stopSession s)) = (Return (), snd (stopSession s))"
    by (rule stopSession_torn_down) (simp_all add: stopSession_fields)
  moreover have "tracks_of (micStreamRef s) \<union> tracks_of (systemStreamRef s)
        \<subseteq> stopped_tracks (snd (stopSession s))"
    by (auto simp add: stopSession_stopped_tracks)
  ultimately show ?thesis
    by (simp add: stopSession_fields stopSession_closed_contexts stopSession_console)
qed

theorem C8_stopSession_witness:
  "fst (stopSession active0) = Return ()
   \<and> stopSession (snd (stopSession active0)) = (Return (), snd (stopSession active0))
   \<and> {1, 2, 3} \<subseteq> stopped_tracks (snd (stopSession active0))
   \<and> closed_contexts (snd (stopSession active0)) = {4}
   \<and> console (snd (stopSession active0)) = [lit ''Error closing session:'']
   \<and> micStreamRef (snd (stopSession active0)) = None"
proof -
  have "tracks_of (micStreamRef active0) \<union> tracks_of (systemStreamRef active0) = {1, 2, 3}"
    "audioContextRef active0 = Some 4" "closed_contexts active0 = {}"
    "sessionRef active0 = Some session0" "console active0 = []"
    "close_raises session0 = Some (Error (lit ''socket is closed''))"
    by (auto simp add: active0_def initial_def tracks_of_def session0_def)
  then show ?thesis
    using C8_stopSession_safe_idempotent [of active0] by simp
qed

text \<open>
  Claim C10. \<open>stopSession\<close> leaves the message history, the suggestion list and
  \<open>status.error\<close> as they were, as well as \<open>isConnecting\<close>, the knowledge text and the
  two transcription buffers: of the component's own values it changes \<open>isActive\<close>,
  \<open>isMicActive\<close>, the four handles and the two live values only. The stop made by the
  transport's \<open>onerror\<close> and \<open>onclose\<close> keeps the history too, and keeps the error
  text \<open>onerror\<close> has just set.
\<close>

theorem C10_stopSession_keeps_history:
  "messages (snd (stopSession s)) = messages s
   \<and> suggestions (snd (stopSession s)) = suggestions s
   \<and> status (snd (stopSession s)) = (status s)\<lparr>isActive := False, isMicActive := False\<rparr>
   \<and> error (status (snd (stopSession s))) = error (status s)
   \<and> isConnecting (status (snd (stopSession s))) = isConnecting (status s)
   \<and> knowledgeBase (snd (stopSession s)) = knowledgeBase s
   \<and> currentInputTranscription (snd (stopSession s)) = currentInputTranscription s
   \<and> currentOutputTranscription (snd (stopSession s)) = currentOutputTranscription s
   \<and> messages (snd (onerror s)) = messages s
   \<and> suggestions (snd (onerror s)) = suggestions s
   \<and> error (status (snd (onerror s))) = Some (lit ''Connection error. Please restart Guard.'')
   \<and> messages (snd (onclose s)) = messages s
   \<and> suggestions (snd (onclose s)) = suggestions s
   \<and> error (status (snd (onclose s))) = error (status s)"
  by (simp add: stopSession_fields onerror_eq onclose_def)

subsection \<open>The turn accumulator\<close>

lemma ex_dropWhile: "(\<exists>x\<in>set (dropWhile P xs). \<not> P x) \<longleftrightarrow> (\<exists>x\<in>set xs. \<not> P x)"
  by (induction xs) auto

lemma truthy_trim_iff: "truthy (trim s) \<longleftrightarrow> (\<exists>c\<in>set s. \<not> isWhiteSpace c)"
  by (simp add: truthy_def trim_def ex_dropWhile)

lemma truthy_trim_append: "truthy (trim s) \<Longrightarrow> truthy (trim (s @ t))"
  by (auto simp: truthy_trim_iff)

lemma delta_fields:
  "currentInputTranscription (onmessage_delta m s)
     = currentInputTranscription s @ delta_input_text m"
  "currentOutputTranscription (onmessage_delta m s)
     = currentOutputTranscription s @ delta_output_text m"
  "messages (onmessage_delta m s) = messages s"
  "suggestions (onmessage_delta m s) = suggestions s"
  by (simp_all add: onmessage_delta_def delta_input_text_def delta_output_text_def Let_def
      split: option.splits)

lemma delta_resets:
  "(onmessage_delta m s)\<lparr>currentInputTranscription := [], currentOutputTranscription := [],
       streamingInput := [], streamingOutput := []\<rparr>
   = s\<lparr>currentInputTranscription := [], currentOutputTranscription := [],
       streamingInput := [], streamingOutput := []\<rparr>"
  by (simp add: onmessage_delta_def Let_def split: option.splits)

lemma commit_fields:
  "messages (commit_input f t s)
     = messages s @ (if truthy (trim t) then [user_message f t] else [])"
  "suggestions (commit_input f t s) = suggestions s"
  "messages (commit_output f t s)
     = messages s @ (if truthy (trim t) then [assistant_message f t] else [])"
  "suggestions (commit_output f t s)
     = (if truthy (trim t) then take 15 (insight f t # suggestions s) else suggestions s)"
  by (simp_all add: commit_input_def commit_output_def user_message_def
      assistant_message_def insight_def)

lemma onmessage_messages:
  "messages (onmessage f m s) =
     messages s @
     (if turnComplete_of m
      then (if truthy (trim (currentInputTranscription s @ delta_input_text m))
            then [user_message f (currentInputTranscription s @ delta_input_text m)] else [])
         @ (if truthy (trim (currentOutputTranscription s @ delta_output_text m))
            then [assistant_message f (currentOutputTranscription s @ delta_output_text m)]
            else [])
      else [])"
proof -
  have c: "currentOutputTranscription (commit_input f t u) = currentOutputTranscription u"
    for t u by (simp add: commit_input_def)
  show ?thesis
    by (simp add: onmessage_def onmessage_turnComplete_def Let_def commit_fields delta_fields)
qed

lemma onmessage_suggestions:
  "suggestions (onmessage f m s) =
     (if turnComplete_of m \<and> truthy (trim (currentOutputTranscription s @ delta_output_text m))
      then take 15 (insight f (currentOutputTranscription s @ delta_output_text m)
                    # suggestions s)
      else suggestions s)"
  by (simp add: onmessage_def onmessage_turnComplete_def Let_def commit_fields delta_fields)

lemma onmessage_buffers:
  "currentInputTranscription (onmessage f m s)
     = (if turnComplete_of m then [] else currentInputTranscription s @ delta_input_text m)"
  "currentOutputTranscription (onmessage f m s)
     = (if turnComplete_of m then [] else currentOutputTranscription s @ delta_output_text m)"
  by (simp_all add: onmessage_def onmessage_turnComplete_def Let_def delta_fields)

text \<open>
  Claim C2. A turn boundary is a message with \<open>turnComplete\<close> set and no transcription
  delta. For every turn boundary that arrives when the input buffer and the output buffer
  are both empty or whitespace-only, no Message and no Suggestion is committed, and both
  buffers and both live values are reset to empty: the state after the handler is the
  state before it with these four values empty. The same holds for a message that
  carries a delta together with \<open>turnComplete\<close> when both buffers are blank once its
  delta has been appended.
\<close>

theorem C2_blank_turn_commits_nothing:
  "(turnComplete_of m
      \<and> outputTranscription_of m = None \<and> inputTranscription_of m = None
      \<and> \<not> truthy (trim (currentInputTranscription s))
      \<and> \<not> truthy (trim (currentOutputTranscription s))
    \<longrightarrow> onmessage f m s
          = s\<lparr>currentInputTranscription := [], currentOutputTranscription := [],
               streamingInput := [], streamingOutput := []\<rparr>
      \<and> messages (onmessage f m s) = messages s
      \<and> suggestions (onmessage f m s) = suggestions s
      \<and> currentInputTranscription (onmessage f m s) = []
      \<and> currentOutputTranscription (onmessage f m s) = []
      \<and> streamingInput (onmessage f m s) = []
      \<and> streamingOutput (onmessage f m s) = [])
   \<and> (turnComplete_of m
      \<and> \<not> truthy (trim (currentInputTranscription (onmessage_delta m s)))
      \<and> \<not> truthy (trim (currentOutputTranscription (onmessage_delta m s)))
    \<longrightarrow> onmessage f m s
          = s\<lparr>currentInputTranscription := [], currentOutputTranscription := [],
               streamingInput := [], streamingOutput := []\<rparr>)"
proof -
  have general: "onmessage f m s
          = s\<lparr>currentInputTranscription := [], currentOutputTranscription := [],
               streamingInput := [], streamingOutput := []\<rparr>"
    if "turnComplete_of m"
      and "\<not> truthy (trim (currentInputTranscription (onmessage_delta m s)))"
      and "\<not> truthy (trim (currentOutputTranscription (onmessage_delta m s)))"
    using that
    by (simp add: onmessage_def onmessage_turnComplete_def Let_def commit_input_def
        commit_output_def delta_resets)
  have plain: "onmessage_delta m s = s"
    if "outputTranscription_of m = None" and "inputTranscription_of m = None"
    using that by (simp add: onmessage_delta_def)
  have boundary: "onmessage f m s
          = s\<lparr>currentInputTranscription := [], currentOutputTranscription := [],
               streamingInput := [], streamingOutput := []\<rparr>"
    if "turnComplete_of m"
      and "outputTranscription_of m = None" and "inputTranscription_of m = None"
      and "\<not> truthy (trim (currentInputTranscription s))"
      and "\<not> truthy (trim (currentOutputTranscription s))"
    using general that by (simp add: plain)
  show ?thesis
  proof (intro conjI impI; (elim conjE)?)
    assume h: "turnComplete_of m" "outputTranscription_of m = None"
      "inputTranscription_of m = None"
      "\<not> truthy (trim (currentInputTranscription s))"
      "\<not> truthy (trim (currentOutputTranscription s))"
    note eq = boundary [OF h]
    show "onmessage f m s
          = s\<lparr>currentInputTranscription := [], currentOutputTranscription := [],
               streamingInput := [], streamingOutput := []\<rparr>"
      by (rule eq)
    show "messages (onmessage f m s) = messages s" by (simp add: eq)
    show "suggestions (onmessage f m s) = suggestions s" by (simp add: eq)
    show "currentInputTranscription (onmessage f m s) = []" by (simp add: eq)
    show "currentOutputTranscription (onmessage f m s) = []" by (simp add: eq)
    show "streamingInput (onmessage f m s) = []" by (simp add: eq)
    show "streamingOutput (onmessage f m s) = []" by (simp add: eq)
  next
    assume "turnComplete_of m"
      "\<not> truthy (trim (currentInputTranscription (onmessage_delta m s)))"
      "\<not> truthy (trim (currentOutputTranscription (onmessage_delta m s)))"
    then show "onmessage f m s
          = s\<lparr>currentInputTranscription := [], currentOutputTranscription := [],
               streamingInput := [], streamingOutput := []\<rparr>"
      by (rule general)
  qed
qed

theorem C2_blank_turn_witness:
  "turnComplete_of turn_complete
   \<and> outputTranscription_of turn_complete = None
   \<and> inputTranscription_of turn_complete = None
   \<and> currentInputTranscription blank0 = lit ''  ''
   \<and> currentOutputTranscription blank0 = []
   \<and> \<not> truthy (trim (lit ''  '')) \<and> \<not> truthy (trim [])
   \<and> \<not> truthy (trim (currentInputTranscription (onmessage_delta turn_complete blank0)))
   \<and> \<not> truthy (trim (currentOutputTranscription (onmessage_delta turn_complete blank0)))
   \<and> onmessage fresh0 turn_complete blank0
        = blank0\<lparr>currentInputTranscription := [], currentOutputTranscription := [],
                 streamingInput := [], streamingOutput := []\<rparr>
   \<and> messages (onmessage fresh0 turn_complete blank0) = messages blank0
   \<and> suggestions (onmessage fresh0 turn_complete blank0) = suggestions blank0
   \<and> streamingInput (onmessage fresh0 turn_complete blank0) = []"
proof -
  have h: "turnComplete_of turn_complete"
    "outputTranscription_of turn_complete = None"
    "inputTranscription_of turn_complete = None"
    "currentInputTranscription blank0 = lit ''  ''"
    "currentOutputTranscription blank0 = []"
    "\<not> truthy (trim (lit ''  ''))" "\<not> truthy (trim [])"
    "\<not> truthy (trim (currentInputTranscription (onmessage_delta turn_complete blank0)))"
    "\<not> truthy (trim (currentOutputTranscription (onmessage_delta turn_complete blank0)))"
    by (simp_all add: turn_complete_def turnComplete_of_def onmessage_delta_def
        outputTranscription_of_def inputTranscription_of_def blank0_def initial_def
        truthy_def trim_def lit_def isWhiteSpace_def)
  show ?thesis
    using h C2_blank_turn_commits_nothing [of turn_complete blank0 fresh0] by simp
qed

subsection \<open>What the other handlers leave alone\<close>

lemma keeps_skip: "keeps g skip"
  by (simp add: keeps_def skip_def)

lemma keeps_throw: "keeps g (throw e)"
  by (simp add: keeps_def throw_def)

lemma keeps_assign: "(\<And>s. g (f s) = g s) \<Longrightarrow> keeps g (assign f)"
  by (simp add: keeps_def assign_def)

lemma keeps_seq: "keeps g a \<Longrightarrow> keeps g b \<Longrightarrow> keeps g (seq a b)"
  unfolding keeps_def seq_def
proof (intro allI)
  fix s
  assume a: "\<forall>s. g (snd (a s)) = g s" and b: "\<forall>s. g (snd (b s)) = g s"
  obtain r s' where as: "a s = (r, s')" by (cases "a s")
  then have "g s' = g s" using a by (metis snd_conv)
  then show "g (snd (case a s of (Return u, s') \<Rightarrow> b s' | (Throw e, s') \<Rightarrow> (Throw e, s'))) = g s"
    using as b by (cases r) simp_all
qed

lemma keeps_try_catch: "keeps g a \<Longrightarrow> (\<And>e. keeps g (h e)) \<Longrightarrow> keeps g (try_catch a h)"
  unfolding keeps_def try_catch_def
proof (intro allI)
  fix s
  assume a: "\<forall>s. g (snd (a s)) = g s" and h: "\<And>e. \<forall>s. g (snd (h e s)) = g s"
  obtain r s' where as: "a s = (r, s')" by (cases "a s")
  then have "g s' = g s" using a by (metis snd_conv)
  then show "g (snd (case a s of (Return u, s') \<Rightarrow> (Return u, s')
                     | (Throw e, s') \<Rightarrow> h e s')) = g s"
    using as h by (cases r) simp_all
qed

lemma keeps_stopSession:
  "keeps messages stopSession" "keeps suggestions stopSession"
  by (simp_all add: keeps_def stopSession_fields)

lemma keeps_start_body:
  assumes "\<And>f s. g (s\<lparr>micStreamRef := f\<rparr>) = g s"
    and "\<And>f s. g (s\<lparr>systemStreamRef := f\<rparr>) = g s"
    and "\<And>f s. g (s\<lparr>audioContextRef := f\<rparr>) = g s"
    and "\<And>f s. g (s\<lparr>sessionRef := f\<rparr>) = g s"
    and "\<And>f s. g (s\<lparr>stopped_tracks := f\<rparr>) = g s"
  shows "keeps g (start_body env)"
proof -
  have 1: "keeps g (acquire_microphone env)"
    by (simp add: acquire_microphone_def keeps_throw keeps_assign assms split: sum.splits)
  have 2: "keeps g (request_system_audio env)"
    by (simp add: request_system_audio_def keeps_throw keeps_assign keeps_seq stop_each_eq
        assms split: sum.splits)
  have 3: "keeps g (acquire_system_audio env)"
    unfolding acquire_system_audio_def
    by (rule keeps_try_catch [OF 2]) (simp add: keeps_throw)
  have 4: "keeps g (create_audio_context env)"
    by (simp add: create_audio_context_def keeps_throw keeps_assign assms split: sum.splits)
  have 5: "keeps g (raise_if r)" for r
    by (simp add: raise_if_def keeps_throw keeps_skip split: option.splits)
  have 6: "keeps g (connect_session env)"
    by (simp add: connect_session_def keeps_throw keeps_assign assms split: sum.splits)
  show ?thesis
    unfolding start_body_def by (intro keeps_seq 1 3 4 5 6)
qed

lemma keeps_startSession:
  assumes "\<And>f s. g (s\<lparr>micStreamRef := f\<rparr>) = g s"
    and "\<And>f s. g (s\<lparr>systemStreamRef := f\<rparr>) = g s"
    and "\<And>f s. g (s\<lparr>audioContextRef := f\<rparr>) = g s"
    and "\<And>f s. g (s\<lparr>sessionRef := f\<rparr>) = g s"
    and "\<And>f s. g (s\<lparr>stopped_tracks := f\<rparr>) = g s"
    and "\<And>f s. g (s\<lparr>status := f\<rparr>) = g s"
    and "\<And>f s. g (s\<lparr>console := f\<rparr>) = g s"
    and "keeps g stopSession"
  shows "keeps g (startSession env)"
proof -
  have k: "keeps g (select_key env)"
    by (simp add: select_key_def raise_if_def keeps_throw keeps_skip
        split: option.splits sum.splits)
  have f: "keeps g (start_failed e)" for e
    unfolding start_failed_def console_error_def
    by (intro keeps_seq keeps_assign assms)
  have b: "keeps g (try_catch (start_body env) start_failed)"
    by (intro keeps_try_catch keeps_start_body assms f)
  show ?thesis
    unfolding startSession_def
    by (intro keeps_seq keeps_assign assms) (simp add: keeps_seq keeps_assign assms k b)
qed

lemma handle_keeps_history:
  assumes "\<not> is_server_message e"
  shows "messages (handle e s) = messages s" and "suggestions (handle e s) = suggestions s"
proof -
  have m: "keeps messages (startSession env)" for env
    by (rule keeps_startSession) (simp_all add: keeps_stopSession)
  have g: "keeps suggestions (startSession env)" for env
    by (rule keeps_startSession) (simp_all add: keeps_stopSession)
  show "messages (handle e s) = messages s"
    using assms m
    by (cases e) (simp_all add: keeps_def stopSession_fields onerror_eq onclose_def
        onopen_def assign_def)
  show "suggestions (handle e s) = suggestions s"
    using assms g
    by (cases e) (simp_all add: keeps_def stopSession_fields onerror_eq onclose_def
        onopen_def assign_def)
qed

subsection \<open>Suggestions\<close>

text \<open>
  Claim C4. The handler changes the suggestion list exactly when the message is a turn
  boundary and the output buffer, as the commit reads it, is non-empty after trimming.
  Then one Suggestion is put at the head (and the list cut to 15): its title is
  \<open>AI Insight\<close>, its confidence \<open>0.99\<close>, its content the text of the assistant Message
  committed last in the same step, with the same id. In every other case, a user-only
  turn among them, the list stays as it is; no handler other than \<open>onmessage\<close> changes it.
\<close>

theorem C4_one_suggestion_per_assistant_turn:
  "suggestions (onmessage f m s) =
     (if turnComplete_of m \<and> truthy (trim (currentOutputTranscription (onmessage_delta m s)))
      then take 15
             (\<lparr>sug_id = newMsgId f, sug_title = lit ''AI Insight'',
               sug_content = currentOutputTranscription (onmessage_delta m s),
               sug_confidence = 0.99, sug_timestamp = suggestion_now f\<rparr> # suggestions s)
      else suggestions s)
   \<and> (turnComplete_of m \<and> truthy (trim (currentOutputTranscription (onmessage_delta m s)))
        \<longrightarrow> hd (suggestions (onmessage f m s))
              = \<lparr>sug_id = newMsgId f, sug_title = lit ''AI Insight'',
                 sug_content = currentOutputTranscription (onmessage_delta m s),
                 sug_confidence = 0.99, sug_timestamp = suggestion_now f\<rparr>
          \<and> last (messages (onmessage f m s))
              = \<lparr>msg_id = newMsgId f, msg_role = assistant,
                 msg_text = currentOutputTranscription (onmessage_delta m s),
                 msg_timestamp = assistant_now f\<rparr>)
   \<and> (\<not> is_server_message e \<longrightarrow> suggestions (handle e s) = suggestions s)"
  by (simp add: onmessage_suggestions onmessage_messages delta_fields insight_def
      assistant_message_def handle_keeps_history)

theorem C4_one_suggestion_witness:
  "turnComplete_of turn_complete
   \<and> truthy (trim (currentOutputTranscription (onmessage_delta turn_complete full0)))
   \<and> \<not> is_server_message Stop
   \<and> hd (suggestions (onmessage fresh0 turn_complete full0))
       = \<lparr>sug_id = lit ''a-1'', sug_title = lit ''AI Insight'',
          sug_content = lit ''The answer is 4.'', sug_confidence = 0.99,
          sug_timestamp = 1002\<rparr>
   \<and> last (messages (onmessage fresh0 turn_complete full0))
       = \<lparr>msg_id = lit ''a-1'', msg_role = assistant, msg_text = lit ''The answer is 4.'',
          msg_timestamp = 1001\<rparr>
   \<and> suggestions (handle Stop full0) = suggestions full0"
proof -
  have h: "turnComplete_of turn_complete"
    "currentOutputTranscription (onmessage_delta turn_complete full0) = lit ''The answer is 4.''"
    "truthy (trim (lit ''The answer is 4.''))"
    "\<not> is_server_message Stop"
    by (simp_all add: turn_complete_def turnComplete_of_def onmessage_delta_def
        outputTranscription_of_def inputTranscription_of_def full0_def initial_def
        truthy_def trim_def lit_def isWhiteSpace_def)
  show ?thesis
    using h C4_one_suggestion_per_assistant_turn [of fresh0 turn_complete full0 Stop]
    by (simp add: fresh0_def)
qed

lemma handle_suggestions_capped:
  "length (suggestions s) \<le> 15 \<Longrightarrow> length (suggestions (handle e s)) \<le> 15"
proof (cases "is_server_message e")
  case True
  then obtain f m where "e = ServerMessage f m" by (cases e) simp_all
  moreover assume "length (suggestions s) \<le> 15"
  ultimately show ?thesis by (simp add: onmessage_suggestions)
next
  case False
  moreover assume "length (suggestions s) \<le> 15"
  ultimately show ?thesis by (simp add: handle_keeps_history)
qed

lemma run_suggestions_capped:
  "length (suggestions s) \<le> 15 \<Longrightarrow> length (suggestions (run es s)) \<le> 15"
  by (induction es arbitrary: s) (simp_all add: handle_suggestions_capped)

lemma take_15_of_16:
  assumes "length xs = 15"
  shows "take 15 (x # xs) = x # butlast xs"
proof -
  have "take 15 (x # xs) = x # take 14 xs"
    by (simp add: take_Cons')
  also have "take 14 xs = butlast xs"
    using assms by (simp add: butlast_conv_take)
  finally show ?thesis .
qed

lemma last_not_in_butlast:
  assumes "distinct xs" "xs \<noteq> []"
  shows "last xs \<notin> set (butlast xs)"
proof -
  have "distinct (butlast xs @ [last xs])" using assms by simp
  then show ?thesis by simp
qed

text \<open>
  Claim C3. In every state the component reaches from its initial state the suggestion
  list has at most 15 entries. When a Suggestion is inserted into a list of 15, the
  result is the new entry followed by the old list without its last (oldest) entry, in
  the old order: 15 entries again; with pairwise different ids the dropped entry occurs
  nowhere in the result.
\<close>

theorem C3_suggestions_capped:
  "length (suggestions (run es initial)) \<le> 15
   \<and> (length (suggestions s) = 15 \<and> turnComplete_of m
        \<and> truthy (trim (currentOutputTranscription (onmessage_delta m s)))
      \<longrightarrow> suggestions (onmessage f m s)
            = insight f (currentOutputTranscription (onmessage_delta m s))
              # butlast (suggestions s)
        \<and> length (suggestions (onmessage f m s)) = 15
        \<and> (distinct (map sug_id (suggestions s))
             \<and> newMsgId f \<notin> sug_id ` set (suggestions s)
            \<longrightarrow> last (suggestions s) \<notin> set (suggestions (onmessage f m s))))"
proof (intro conjI impI; (elim conjE)?)
  show "length (suggestions (run es initial)) \<le> 15"
    by (rule run_suggestions_capped) (simp add: initial_def)
next
  assume len: "length (suggestions s) = 15" and tc: "turnComplete_of m"
    and out: "truthy (trim (currentOutputTranscription (onmessage_delta m s)))"
  define t where "t = currentOutputTranscription (onmessage_delta m s)"
  have "suggestions (onmessage f m s) = take 15 (insight f t # suggestions s)"
    using tc out by (simp add: onmessage_suggestions delta_fields t_def)
  then have eq: "suggestions (onmessage f m s) = insight f t # butlast (suggestions s)"
    by (simp only: take_15_of_16 [OF len])
  show "suggestions (onmessage f m s)
          = insight f (currentOutputTranscription (onmessage_delta m s))
            # butlast (suggestions s)"
    using eq by (simp only: t_def)
  show "length (suggestions (onmessage f m s)) = 15"
    using len by (simp add: eq)
  assume d: "distinct (map sug_id (suggestions s))"
    and n: "newMsgId f \<notin> sug_id ` set (suggestions s)"
  have ne: "suggestions s \<noteq> []" using len by auto
  then have "last (suggestions s) \<in> set (suggestions s)" by simp
  then have "sug_id (last (suggestions s)) \<in> sug_id ` set (suggestions s)"
    by (rule imageI)
  then have "sug_id (last (suggestions s)) \<noteq> newMsgId f" using n by metis
  then have "last (suggestions s) \<noteq> insight f t" by (auto simp add: insight_def)
  moreover have "last (suggestions s) \<notin> set (butlast (suggestions s))"
    using d ne by (intro last_not_in_butlast) (simp_all add: distinct_map)
  ultimately show "last (suggestions s) \<notin> set (suggestions (onmessage f m s))"
    by (simp add: eq)
qed

theorem C3_suggestions_witness:
  "length (suggestions (run [ServerMessage fresh0 hi_and_done, Stop] initial)) \<le> 15
   \<and> length (suggestions full0) = 15 \<and> turnComplete_of turn_complete
   \<and> truthy (trim (currentOutputTranscription (onmessage_delta turn_complete full0)))
   \<and> distinct (map sug_id (suggestions full0))
   \<and> newMsgId fresh0 \<notin> sug_id ` set (suggestions full0)
   \<and> suggestions (onmessage fresh0 turn_complete full0)
       = insight fresh0 (lit ''The answer is 4.'')
         # map suggestion0 [1, 2, 3, 4, 5, 6, 7, 8, 9, 10, 11, 12, 13, 14]
   \<and> suggestion0 15 \<notin> set (suggestions (onmessage fresh0 turn_complete full0))"
proof -
  have h: "length (suggestions full0) = 15" "turnComplete_of turn_complete"
    "currentOutputTranscription (onmessage_delta turn_complete full0) = lit ''The answer is 4.''"
    "truthy (trim (lit ''The answer is 4.''))"
    "distinct (map sug_id (suggestions full0))"
    "newMsgId fresh0 \<notin> sug_id ` set (suggestions full0)"
    "butlast (suggestions full0) = map suggestion0 [1, 2, 3, 4, 5, 6, 7, 8, 9, 10, 11, 12, 13, 14]"
    "last (suggestions full0) = suggestion0 15"
    by (simp_all add: turn_complete_def turnComplete_of_def onmessage_delta_def
        outputTranscription_of_def inputTranscription_of_def full0_def initial_def
        truthy_def trim_def lit_def isWhiteSpace_def suggestion0_def fresh0_def)
  show ?thesis
    using h C3_suggestions_capped
      [of "[ServerMessage fresh0 hi_and_done, Stop]" full0 turn_complete fresh0]
    by (simp add: suggestion0_def insight_def fresh0_def lit_def)
qed

subsection \<open>Turns\<close>

lemma run_append: "run (xs @ ys) s = run ys (run xs s)"
  by (induction xs arbitrary: s) simp_all

lemma run_deltas_all:
  "list_all delta_event ds \<Longrightarrow>
   currentInputTranscription (run ds s) = currentInputTranscription s @ input_texts ds
   \<and> currentOutputTranscription (run ds s) = currentOutputTranscription s @ output_texts ds
   \<and> messages (run ds s) = messages s
   \<and> suggestions (run ds s) = suggestions s"
proof (induction ds arbitrary: s)
  case Nil
  show ?case by simp
next
  case (Cons e ds)
  from Cons.prems obtain f m where e: "e = ServerMessage f m" and tc: "\<not> turnComplete_of m"
    by (cases e) simp_all
  from Cons.prems have ds: "list_all delta_event ds" by simp
  show ?case
    using tc Cons.IH [OF ds, of "onmessage f m s"]
    by (simp add: e onmessage_buffers onmessage_messages onmessage_suggestions)
qed

lemma run_deltas:
  assumes "list_all delta_event ds"
  shows "currentInputTranscription (run ds s) = currentInputTranscription s @ input_texts ds"
    and "currentOutputTranscription (run ds s)
           = currentOutputTranscription s @ output_texts ds"
    and "messages (run ds s) = messages s"
    and "suggestions (run ds s) = suggestions s"
  using run_deltas_all [OF assms, of s] by simp_all

lemma input_deltas_texts:
  "list_all delta_event (input_deltas ds)"
  "input_texts (input_deltas ds) = concat (map snd ds)"
  "output_texts (input_deltas ds) = []"
  by (induction ds)
     (auto simp add: input_deltas_def input_delta_def turnComplete_of_def
        delta_input_text_def delta_output_text_def outputTranscription_of_def
        inputTranscription_of_def ToString_def)

lemma output_deltas_texts:
  "list_all delta_event (output_deltas ds)"
  "input_texts (output_deltas ds) = []"
  "output_texts (output_deltas ds) = concat (map snd ds)"
  by (induction ds)
     (auto simp add: output_deltas_def output_delta_def turnComplete_of_def
        delta_input_text_def delta_output_text_def outputTranscription_of_def
        inputTranscription_of_def ToString_def)

lemma turn_complete_texts:
  "turnComplete_of turn_complete"
  "delta_input_text turn_complete = []"
  "delta_output_text turn_complete = []"
  by (simp_all add: turn_complete_def turnComplete_of_def delta_input_text_def
      delta_output_text_def outputTranscription_of_def inputTranscription_of_def)

lemma blank_not_truthy: "\<not> truthy (trim [])"
  by (simp add: truthy_def trim_def)

lemma handle_messages_nonblank:
  assumes "\<forall>x\<in>set (messages s). truthy (trim (msg_text x))"
  shows "\<forall>x\<in>set (messages (handle e s)). truthy (trim (msg_text x))"
proof (cases "is_server_message e")
  case True
  then obtain f m where "e = ServerMessage f m" by (cases e) simp_all
  then show ?thesis
    using assms
    by (auto simp add: onmessage_messages user_message_def assistant_message_def)
next
  case False
  then show ?thesis using assms by (simp add: handle_keeps_history)
qed

lemma run_messages_nonblank:
  "\<forall>x\<in>set (messages s). truthy (trim (msg_text x)) \<Longrightarrow>
   \<forall>x\<in>set (messages (run es s)). truthy (trim (msg_text x))"
proof (induction es arbitrary: s)
  case Nil
  then show ?case by simp
next
  case (Cons e es)
  have "\<forall>x\<in>set (messages (handle e s)). truthy (trim (msg_text x))"
    using Cons.prems by (rule handle_messages_nonblank)
  then show ?case using Cons.IH by simp
qed

text \<open>
  Claim C1, as stated, fails: the commit tests \<open>inputText.trim()\<close> and stores
  \<open>inputText\<close>. After the one input delta \<open>hi\<close> between two spaces and a turn boundary,
  the committed text still has both spaces; trimmed, it would not.
\<close>

theorem C1_counterexample:
  "messages (run (input_deltas [(fresh0, lit '' hi '')] @ [ServerMessage fresh0 turn_complete])
               initial)
     = [\<lparr>msg_id = lit ''u-1'', msg_role = user, msg_text = lit '' hi '',
         msg_timestamp = 1000\<rparr>]
   \<and> trim (concat [lit '' hi '']) = lit ''hi''
   \<and> lit '' hi '' \<noteq> trim (concat [lit '' hi ''])"
  by (simp add: input_deltas_def input_delta_def turn_complete_def onmessage_messages
      onmessage_buffers initial_def turnComplete_of_def delta_input_text_def
      delta_output_text_def outputTranscription_of_def inputTranscription_of_def
      ToString_def user_message_def fresh0_def truthy_def trim_def lit_def isWhiteSpace_def)

text \<open>
  Claim C1, amended. Start with both buffers empty. After a sequence of deltas of one
  direction and a turn boundary, a Message is committed for that direction exactly when
  the concatenation of the delta texts in arrival order is non-empty after trimming, and
  its text is that concatenation as it is, untrimmed. So in every state reached from
  the initial one each committed Message has a text that is non-empty after trimming.
\<close>

theorem C1_committed_text_is_concatenation:
  assumes "currentInputTranscription s = []" and "currentOutputTranscription s = []"
  shows "messages (run (input_deltas ds @ [ServerMessage g turn_complete]) s)
           = messages s @
             (if truthy (trim (concat (map snd ds)))
              then [\<lparr>msg_id = user_uuid g, msg_role = user, msg_text = concat (map snd ds),
                     msg_timestamp = user_now g\<rparr>]
              else [])
       \<and> messages (run (output_deltas ds @ [ServerMessage g turn_complete]) s)
           = messages s @
             (if truthy (trim (concat (map snd ds)))
              then [\<lparr>msg_id = newMsgId g, msg_role = assistant,
                     msg_text = concat (map snd ds), msg_timestamp = assistant_now g\<rparr>]
              else [])
       \<and> (\<forall>x\<in>set (messages (run es initial)). truthy (trim (msg_text x)))"
proof -
  have "\<forall>x\<in>set (messages (run es initial)). truthy (trim (msg_text x))"
    by (rule run_messages_nonblank) (simp add: initial_def)
  then show ?thesis
    using assms
    by (simp add: run_append onmessage_messages run_deltas input_deltas_texts
        output_deltas_texts turn_complete_texts blank_not_truthy user_message_def
        assistant_message_def)
qed

theorem C1_committed_text_witness:
  "currentInputTranscription initial = [] \<and> currentOutputTranscription initial = []
   \<and> messages (run (input_deltas [(fresh0, lit ''Wh''), (fresh0, lit ''at is 2+2? '')]
                    @ [ServerMessage fresh0 turn_complete]) initial)
       = [\<lparr>msg_id = lit ''u-1'', msg_role = user, msg_text = lit ''What is 2+2? '',
           msg_timestamp = 1000\<rparr>]
   \<and> messages (run (output_deltas [(fresh0, lit ''  '')]
                    @ [ServerMessage fresh0 turn_complete]) initial) = []
   \<and> list_all (\<lambda>x. truthy (trim (msg_text x)))
         (messages (run [ServerMessage fresh0 hi_and_done] initial))"
proof -
  have h: "currentInputTranscription initial = []" "currentOutputTranscription initial = []"
    by (simp_all add: initial_def)
  have t: "truthy (trim (lit ''What is 2+2? ''))" "\<not> truthy (trim (lit ''  ''))"
    "lit ''Wh'' @ lit ''at is 2+2? '' = lit ''What is 2+2? ''" "messages initial = []"
    by (simp_all add: truthy_def trim_def lit_def isWhiteSpace_def initial_def)
  show ?thesis
    using h t
      C1_committed_text_is_concatenation [OF h,
        of "[(fresh0, lit ''Wh''), (fresh0, lit ''at is 2+2? '')]" fresh0
           "[ServerMessage fresh0 hi_and_done]"]
      C1_committed_text_is_concatenation [OF h, of "[(fresh0, lit ''  '')]" fresh0 "[]"]
    by (simp add: fresh0_def list_all_iff)
qed

text \<open>
  Claim C7. Let any sequence of messages that are not turn boundaries arrive, input and
  output deltas in any interleaving, and then a turn boundary. When both buffers, as the
  commit reads them, are non-empty after trimming, the history grows by exactly two
  Messages: the user Message with the input text first, the assistant Message with the
  output text second. The texts are the buffers at the start followed by the deltas of
  their direction in arrival order.
\<close>

theorem C7_user_before_assistant:
  assumes "list_all delta_event ds" and "turnComplete_of m"
    and "truthy (trim (currentInputTranscription s
                        @ input_texts (ds @ [ServerMessage g m])))"
    and "truthy (trim (currentOutputTranscription s
                        @ output_texts (ds @ [ServerMessage g m])))"
  shows "messages (run (ds @ [ServerMessage g m]) s)
           = messages s @
             [\<lparr>msg_id = user_uuid g, msg_role = user,
               msg_text = currentInputTranscription s
                            @ input_texts (ds @ [ServerMessage g m]),
               msg_timestamp = user_now g\<rparr>,
              \<lparr>msg_id = newMsgId g, msg_role = assistant,
               msg_text = currentOutputTranscription s
                            @ output_texts (ds @ [ServerMessage g m]),
               msg_timestamp = assistant_now g\<rparr>]"
proof -
  have i: "input_texts (ds @ [ServerMessage g m]) = input_texts ds @ delta_input_text m"
    using assms(1) by (induction ds rule: input_texts.induct) simp_all
  have out: "output_texts (ds @ [ServerMessage g m]) = output_texts ds @ delta_output_text m"
    using assms(1) by (induction ds rule: output_texts.induct) simp_all
  show ?thesis
    using assms(2-4)
    by (simp add: run_append onmessage_messages run_deltas [OF assms(1)] i out
        user_message_def assistant_message_def)
qed

theorem C7_user_before_assistant_witness:
  "list_all delta_event
     [ServerMessage fresh0 (output_delta (lit ''It is'')),
      ServerMessage fresh0 (input_delta (lit ''What is '')),
      ServerMessage fresh0 (output_delta (lit '' 4.'')),
      ServerMessage fresh0 (input_delta (lit ''2+2?''))]
   \<and> turnComplete_of turn_complete
   \<and> messages (run ([ServerMessage fresh0 (output_delta (lit ''It is'')),
                      ServerMessage fresh0 (input_delta (lit ''What is '')),
                      ServerMessage fresh0 (output_delta (lit '' 4.'')),
                      ServerMessage fresh0 (input_delta (lit ''2+2?''))]
                     @ [ServerMessage fresh0 turn_complete]) initial)
       = [\<lparr>msg_id = lit ''u-1'', msg_role = user, msg_text = lit ''What is 2+2?'',
           msg_timestamp = 1000\<rparr>,
          \<lparr>msg_id = lit ''a-1'', msg_role = assistant, msg_text = lit ''It is 4.'',
           msg_timestamp = 1001\<rparr>]"
proof -
  define ds where "ds =
     [ServerMessage fresh0 (output_delta (lit ''It is'')),
      ServerMessage fresh0 (input_delta (lit ''What is '')),
      ServerMessage fresh0 (output_delta (lit '' 4.'')),
      ServerMessage fresh0 (input_delta (lit ''2+2?''))]"
  have h1: "list_all delta_event ds"
    by (simp add: ds_def output_delta_def input_delta_def turnComplete_of_def)
  have h2: "turnComplete_of turn_complete" by (rule turn_complete_texts)
  have i: "currentInputTranscription initial
             @ input_texts (ds @ [ServerMessage fresh0 turn_complete]) = lit ''What is 2+2?''"
    and out: "currentOutputTranscription initial
             @ output_texts (ds @ [ServerMessage fresh0 turn_complete]) = lit ''It is 4.''"
    by (simp_all add: ds_def initial_def output_delta_def input_delta_def turn_complete_def
        delta_input_text_def delta_output_text_def outputTranscription_of_def
        inputTranscription_of_def ToString_def lit_def)
  have h3: "truthy (trim (currentInputTranscription initial
                        @ input_texts (ds @ [ServerMessage fresh0 turn_complete])))"
    and h4: "truthy (trim (currentOutputTranscription initial
                        @ output_texts (ds @ [ServerMessage fresh0 turn_complete])))"
    unfolding i out by (simp_all add: truthy_def trim_def lit_def isWhiteSpace_def)
  have "messages initial = []" by (simp add: initial_def)
  then show ?thesis
    using h1 h2 C7_user_before_assistant [OF h1 h2 h3 h4]
    unfolding i out by (simp add: ds_def fresh0_def)
qed

subsection \<open>Startup without shared audio\<close>







end
